theory Spec2Isabelle
  imports Complex_Main "HOL-Library.Log_Nat"
begin

section \<open>Values and errors\<close>

text \<open>
  The module \<^verbatim>\<open>mcpid/lookup.py\<close> has one function, \<^verbatim>\<open>frac\<close>, and one class,
  \<^verbatim>\<open>PdgRecords\<close>, whose method \<^verbatim>\<open>properties\<close> queries a table read once from a CSV
  file. Exceptions are values of the type \<open>error\<close>; a computation that may raise has the
  type \<open>error + 'a\<close>, with \<open>Inl\<close> for the exception.
\<close>

datatype labels = Codes "int list" | Columns "string list"

datatype error =
    ValueError
  | ZeroDivisionError
  | OverflowError
  | KeyError labels
  | IndexError

text \<open>
  What \<^verbatim>\<open>frac\<close> can return: a \<^verbatim>\<open>fractions.Fraction\<close> (always in lowest terms, so a
  \<^typ>\<open>rat\<close>), a finite float (a binary64, given by the rational it denotes), the float
  \<^verbatim>\<open>np.nan\<close>, or \<^verbatim>\<open>None\<close> when the function body ends without a \<^verbatim>\<open>return\<close>.
\<close>

datatype pyval = PyFraction rat | PyFloat rat | PyNaN | PyNone

section \<open>The constructor \<^verbatim>\<open>Fraction(str)\<close>\<close>

text \<open>
  \<^verbatim>\<open>Fraction\<close> matches its string argument against
  \<^verbatim>\<open>\A\s*(?P<sign>[-+]?)(?=\d|\.\d)(?P<num>\d*)(?:(?:/(?P<denom>\d+))?|(?:\.(?P<decimal>\d*))?(?:E(?P<exp>[-+]?\d+))?)\s*\Z\<close>,
  ignoring case. Strings are taken over ASCII: a digit is one of \<^verbatim>\<open>0\<close> to \<^verbatim>\<open>9\<close>, white
  space is what \<^verbatim>\<open>\s\<close> matches below code point 128. The digit-group underscores that
  later versions of the library admit are not part of this grammar.
\<close>

definition is_digit :: "char \<Rightarrow> bool" where
  "is_digit c = (48 \<le> (of_char c :: nat) \<and> (of_char c :: nat) \<le> 57)"

definition is_space :: "char \<Rightarrow> bool" where
  "is_space c =
     (let n = (of_char c :: nat) in (9 \<le> n \<and> n \<le> 13) \<or> (28 \<le> n \<and> n \<le> 32))"

definition is_sign :: "char \<Rightarrow> bool" where
  "is_sign c = (c = CHR ''-'' \<or> c = CHR ''+'')"

text \<open>The groups of a successful match; an optional group that took no part is \<open>None\<close>.\<close>

record rational_match =
  sign :: string
  num :: string
  denom :: "string option"
  decimal :: "string option"
  exp :: "string option"

text \<open>\<^verbatim>\<open>\s*\Z\<close>: only white space is left.\<close>

definition at_end :: "string \<Rightarrow> bool" where
  "at_end s = (dropWhile is_space s = [])"

text \<open>\<^verbatim>\<open>(?=\d|\.\d)\<close>: a digit comes next, or a point and then a digit.\<close>

fun lookahead :: "string \<Rightarrow> bool" where
  "lookahead [] = False"
| "lookahead [c] = is_digit c"
| "lookahead (c # d # _) = (is_digit c \<or> (c = CHR ''.'' \<and> is_digit d))"

text \<open>\<^verbatim>\<open>[-+]?\<close>: the sign taken, and the rest.\<close>

fun opt_sign :: "string \<Rightarrow> string \<times> string" where
  "opt_sign [] = ([], [])"
| "opt_sign (c # r) = (if is_sign c then ([c], r) else ([], c # r))"

text \<open>\<^verbatim>\<open>(?:\.(?P<decimal>\d*))?\<close>: the group and the rest.\<close>

fun opt_decimal :: "string \<Rightarrow> string option \<times> string" where
  "opt_decimal [] = (None, [])"
| "opt_decimal (c # r) =
     (if c = CHR ''.'' then (Some (takeWhile is_digit r), dropWhile is_digit r)
      else (None, c # r))"

text \<open>\<^verbatim>\<open>(?:E(?P<exp>[-+]?\d+))?\<close>, where \<^verbatim>\<open>E\<close> also matches \<^verbatim>\<open>e\<close>: the group and the rest.\<close>

fun opt_exp :: "string \<Rightarrow> string option \<times> string" where
  "opt_exp [] = (None, [])"
| "opt_exp (c # r) =
     (if c = CHR ''E'' \<or> c = CHR ''e'' then
        (let (sg, r') = opt_sign r; ds = takeWhile is_digit r' in
         if ds = [] then (None, c # r) else (Some (sg @ ds), dropWhile is_digit r'))
      else (None, c # r))"

text \<open>
  The match itself. Every repetition of the pattern is followed by something its own
  characters cannot start, so the greedy choice is the only one that can succeed and the
  backtracking matcher is this deterministic scan. After the numerator the first
  alternative takes a slash and a denominator when both are there, and otherwise nothing;
  when the end does not follow, the second alternative is tried from the same place.
\<close>

definition rational_format :: "string \<Rightarrow> rational_match option" where
  "rational_format s =
     (let (sg, s2) = opt_sign (dropWhile is_space s) in
      if \<not> lookahead s2 then None
      else
        let nm = takeWhile is_digit s2; s3 = dropWhile is_digit s2 in
        if s3 \<noteq> [] \<and> hd s3 = CHR ''/'' \<and> takeWhile is_digit (tl s3) \<noteq> [] then
          (if at_end (dropWhile is_digit (tl s3)) then
             Some \<lparr>sign = sg, num = nm, denom = Some (takeWhile is_digit (tl s3)),
                   decimal = None, exp = None\<rparr>
           else None)
        else if at_end s3 then
          Some \<lparr>sign = sg, num = nm, denom = None, decimal = None, exp = None\<rparr>
        else
          let (dc, s4) = opt_decimal s3; (ex, s5) = opt_exp s4 in
          if at_end s5 then
            Some \<lparr>sign = sg, num = nm, denom = None, decimal = dc, exp = ex\<rparr>
          else None)"

text \<open>\<^verbatim>\<open>int\<close> of a string of digits, and of digits after an optional sign.\<close>

definition int_of_digits :: "string \<Rightarrow> int" where
  "int_of_digits ds = foldl (\<lambda>a c. 10 * a + (int (of_char c) - 48)) 0 ds"

definition int_of_signed :: "string \<Rightarrow> int" where
  "int_of_signed s =
     (case s of
        [] \<Rightarrow> 0
      | c # r \<Rightarrow>
          if c = CHR ''-'' then - int_of_digits r
          else if c = CHR ''+'' then int_of_digits r
          else int_of_digits s)"

text \<open>
  The string branch of \<^verbatim>\<open>Fraction.__new__\<close>: no match raises \<^verbatim>\<open>ValueError\<close>, a zero
  denominator raises \<^verbatim>\<open>ZeroDivisionError\<close>, and the result is put in lowest terms.
\<close>

definition Fraction_str :: "string \<Rightarrow> error + rat" where
  "Fraction_str s =
     (case rational_format s of
        None \<Rightarrow> Inl ValueError
      | Some m \<Rightarrow>
          let numerator0 = int_of_digits (if num m = [] then ''0'' else num m);
              (numerator1, denominator) =
                (case denom m of
                   Some d \<Rightarrow> (numerator0, int_of_digits d)
                 | None \<Rightarrow>
                     let (n1, d1) =
                           (case decimal m of
                              None \<Rightarrow> (numerator0, 1)
                            | Some dec \<Rightarrow>
                                if dec = [] then (numerator0, 1)
                                else
                                  let scale = 10 ^ length dec in
                                  (numerator0 * scale + int_of_digits dec, scale))
                     in
                       (case exp m of
                          None \<Rightarrow> (n1, d1)
                        | Some ex \<Rightarrow>
                            let e = int_of_signed ex in
                            if 0 \<le> e then (n1 * 10 ^ nat e, d1)
                            else (n1, d1 * 10 ^ nat (- e))));
              numerator = (if sign m = ''-'' then - numerator1 else numerator1)
          in
            if denominator = 0 then Inl ZeroDivisionError
            else Inr (Fract numerator denominator))"

section \<open>\<^verbatim>\<open>float\<close> of a \<^verbatim>\<open>Fraction\<close>\<close>

text \<open>
  \<^verbatim>\<open>float(Fraction(inp))\<close> divides the numerator by the denominator as integers: the
  quotient rounded to the nearest binary64, ties to even, and \<^verbatim>\<open>OverflowError\<close> when
  that is out of range. A binary64 has 53 significant bits and no bit below \<open>2^-1074\<close>.
\<close>

definition pow2 :: "int \<Rightarrow> rat" where
  "pow2 e = (if 0 \<le> e then 2 ^ nat e else 1 / 2 ^ nat (- e))"

text \<open>For \<open>a > 0\<close>, the \<open>e\<close> with \<open>2^e \<le> a < 2^(e+1)\<close>.\<close>

definition ilog2 :: "rat \<Rightarrow> int" where
  "ilog2 a =
     (let (n, d) = quotient_of a; e0 = bitlen n - bitlen d in
      if a < pow2 e0 then e0 - 1 else e0)"

definition round_half_even :: "rat \<Rightarrow> int" where
  "round_half_even x =
     (let f = \<lfloor>x\<rfloor>; r = x - of_int f in
      if r < 1 / 2 then f
      else if 1 / 2 < r then f + 1
      else if even f then f
      else f + 1)"

definition float_of_Fraction :: "rat \<Rightarrow> error + rat" where
  "float_of_Fraction q =
     (if q = 0 then Inr 0
      else
        let a = \<bar>q\<bar>;
            k = max (ilog2 a - 52) (- 1074);
            v = of_int (round_half_even (a / pow2 k)) * pow2 k
        in if pow2 1024 \<le> v then Inl OverflowError else Inr (sgn q * v))"

section \<open>\<^verbatim>\<open>frac\<close>\<close>

text \<open>
  \<^verbatim>\<open>cast_frac\<close> is \<^verbatim>\<open>lambda inp: float(Fraction(inp))\<close> when \<^verbatim>\<open>obj_mode\<close> is false and
  \<^verbatim>\<open>Fraction\<close> when it is true.
\<close>

definition cast_frac :: "bool \<Rightarrow> string \<Rightarrow> error + pyval" where
  "cast_frac obj_mode inp =
     (case Fraction_str inp of
        Inl e \<Rightarrow> Inl e
      | Inr q \<Rightarrow>
          if obj_mode then Inr (PyFraction q)
          else (case float_of_Fraction q of Inl e \<Rightarrow> Inl e | Inr x \<Rightarrow> Inr (PyFloat x)))"

text \<open>
  The \<^verbatim>\<open>try\<close> catches \<^verbatim>\<open>ValueError\<close> only. Its handler returns in two branches; in the
  third it ends, and so does the function: the call returns \<^verbatim>\<open>None\<close>.
\<close>

definition frac :: "string \<Rightarrow> bool \<Rightarrow> error + pyval" where
  "frac num_str obj_mode =
     (case cast_frac obj_mode num_str of
        Inr v \<Rightarrow> Inr v
      | Inl e \<Rightarrow>
          if e = ValueError then
            (if num_str = '''' then cast_frac obj_mode ''0/1''
             else if num_str = ''?'' then Inr PyNaN
             else Inr PyNone)
          else Inl e)"

section \<open>Tables and record arrays\<close>

text \<open>
  A cell of the table: the integer of the \<^verbatim>\<open>id\<close> column, a string, what a converter
  (\<^verbatim>\<open>frac\<close>) or the float parser produced, or a boolean.
\<close>

datatype cell = CInt int | CStr string | CVal pyval | CBool bool

text \<open>
  A \<^verbatim>\<open>pandas.DataFrame\<close> with an integer index: the name of the index, the index
  labels, the column names, and one row of cells for each index label. \<^verbatim>\<open>read_csv\<close>
  makes column names distinct, and \<^verbatim>\<open>set_index("id")\<close> takes the column \<^verbatim>\<open>id\<close> out
  of the columns and names the index after it, without a check that its labels are
  distinct. The CSV file is not part of the sources, so the table is a parameter, and
  what the constructor guarantees of it is the predicate \<open>wf_table\<close>; that no label
  occurs twice is the separate predicate \<open>unique_index\<close>.
\<close>

record dataframe =
  index_name :: string
  index :: "int list"
  columns :: "string list"
  rows :: "cell list list"

definition wf_table :: "dataframe \<Rightarrow> bool" where
  "wf_table df =
     (index_name df = ''id'' \<and> index_name df \<notin> set (columns df) \<and>
      distinct (columns df) \<and> ''pythia'' \<in> set (columns df) \<and>
      length (rows df) = length (index df) \<and>
      list_all (\<lambda>r. length r = length (columns df)) (rows df))"

definition unique_index :: "dataframe \<Rightarrow> bool" where
  "unique_index df = distinct (index df)"

text \<open>A numpy record array: the field names and the records.\<close>

record recarray =
  names :: "string list"
  recs :: "cell list list"

text \<open>The position of the first \<open>x\<close> in a list and 0 in the empty list.\<close>

fun index_of :: "'a list \<Rightarrow> 'a \<Rightarrow> nat" where
  "index_of [] x = 0"
| "index_of (y # ys) x = (if y = x then 0 else Suc (index_of ys x))"

text \<open>
  \<^verbatim>\<open>np.unique(pdgs, return_inverse=True)\<close>: the distinct values in ascending order, and
  for each input position the position of its value among them.
\<close>

definition np_unique :: "int list \<Rightarrow> int list \<times> nat list" where
  "np_unique pdgs = (let u = sort (remdups pdgs) in (u, map (index_of u) pdgs))"

text \<open>
  \<^verbatim>\<open>df.loc[keys]\<close> with a list of labels: \<^verbatim>\<open>KeyError\<close>, naming the labels that are not in
  the index, when there is one; otherwise, for each key in turn, every row with that
  label.
\<close>

definition loc :: "dataframe \<Rightarrow> int list \<Rightarrow> error + dataframe" where
  "loc df keys =
     (let missing = filter (\<lambda>k. k \<notin> set (index df)) keys in
      if missing \<noteq> [] then Inl (KeyError (Codes missing))
      else
        let sel = concat (map (\<lambda>k. filter (\<lambda>(i, r). i = k) (zip (index df) (rows df))) keys)
        in Inr (df\<lparr>index := map fst sel, rows := map snd sel\<rparr>))"

text \<open>A row restricted to the columns \<open>props\<close>, in the order of \<open>props\<close>.\<close>

definition project :: "string list \<Rightarrow> cell list \<Rightarrow> string list \<Rightarrow> cell list" where
  "project cols r props = map (\<lambda>p. r ! index_of cols p) props"

text \<open>\<^verbatim>\<open>df[name]\<close> with one column name: the cells of that column.\<close>

definition getitem :: "dataframe \<Rightarrow> string \<Rightarrow> error + cell list" where
  "getitem df name =
     (if name \<in> set (columns df) then Inr (map (\<lambda>r. r ! index_of (columns df) name) (rows df))
      else Inl (KeyError (Columns [name])))"

text \<open>\<^verbatim>\<open>df[props]\<close> with a list of column names: a frame of these columns, in this order.\<close>

definition getitem_list :: "dataframe \<Rightarrow> string list \<Rightarrow> error + dataframe" where
  "getitem_list df props =
     (let missing = filter (\<lambda>p. p \<notin> set (columns df)) props in
      if missing \<noteq> [] then Inl (KeyError (Columns missing))
      else Inr (df\<lparr>columns := props, rows := map (\<lambda>r. project (columns df) r props) (rows df)\<rparr>))"

text \<open>
  \<^verbatim>\<open>df.to_records()\<close>: the index becomes the first field. A numpy record type cannot have
  two fields of one name: building it raises \<^verbatim>\<open>ValueError\<close>.
\<close>

definition to_records :: "dataframe \<Rightarrow> error + recarray" where
  "to_records df =
     (let nms = index_name df # columns df in
      if \<not> distinct nms then Inl ValueError
      else Inr \<lparr>names = nms, recs = map2 (\<lambda>i r. CInt i # r) (index df) (rows df)\<rparr>)"

text \<open>
  \<^verbatim>\<open>rfn.drop_fields(base, name)\<close>: the array without the field of that name (numpy from
  1.18 on returns an array without fields when none is left).
\<close>

definition drop_fields :: "recarray \<Rightarrow> string \<Rightarrow> recarray" where
  "drop_fields base name =
     \<lparr>names = filter (\<lambda>n. n \<noteq> name) (names base),
      recs = map (\<lambda>r. map snd (filter (\<lambda>(n, c). n \<noteq> name) (zip (names base) r))) (recs base)\<rparr>"

text \<open>\<^verbatim>\<open>a[idxs]\<close> with an array of positions: the records at these positions.\<close>

definition getitem_idxs :: "recarray \<Rightarrow> nat list \<Rightarrow> error + recarray" where
  "getitem_idxs a idxs =
     (if list_all (\<lambda>i. i < length (recs a)) idxs then Inr (a\<lparr>recs := map (\<lambda>i. recs a ! i) idxs\<rparr>)
      else Inl IndexError)"

text \<open>
  \<^verbatim>\<open>np.any\<close> of a column calls the column's own \<^verbatim>\<open>any\<close>, which passes over missing
  values: some cell is true, a non-zero number or a non-empty string.
\<close>

fun truthy :: "cell \<Rightarrow> bool" where
  "truthy (CBool b) = b"
| "truthy (CInt i) = (i \<noteq> 0)"
| "truthy (CStr s) = (s \<noteq> [])"
| "truthy (CVal (PyFraction q)) = (q \<noteq> 0)"
| "truthy (CVal (PyFloat x)) = (x \<noteq> 0)"
| "truthy (CVal PyNaN) = False"
| "truthy (CVal PyNone) = False"

definition np_any :: "cell list \<Rightarrow> bool" where
  "np_any cs = list_ex truthy cs"

section \<open>\<^verbatim>\<open>PdgRecords.properties\<close>\<close>

text \<open>
  The object holds the table in \<^verbatim>\<open>self.__lookup\<close>. What a call does besides returning
  is recorded as a trace: each \<^verbatim>\<open>self.__lookup.loc[...]\<close> with its keys, and each
  \<^verbatim>\<open>warnings.warn\<close>. A call yields its result or exception, its trace, and the object
  after the call.
\<close>

record PdgRecords =
  lookup :: dataframe

datatype event = Lookup "int list" | UserWarning

definition valid_pythia :: "string set" where
  "valid_pythia = {''name'', ''charge'', ''mass'', ''width''}"

definition properties ::
  "PdgRecords \<Rightarrow> int list \<Rightarrow> string list \<Rightarrow> (error + recarray) \<times> event list \<times> PdgRecords" where
  "properties self pdgs props =
     (let (pdg_ids, pdg_inv_idxs) = np_unique pdgs;
          t1 = [Lookup pdg_ids]
      in
        case loc (lookup self) pdg_ids of
          Inl e \<Rightarrow> (Inl e, t1, self)
        | Inr sel \<Rightarrow>
        case getitem sel ''pythia'' of
          Inl e \<Rightarrow> (Inl e, t1, self)
        | Inr flags \<Rightarrow>
        let contains_pythia = np_any flags;
            t2 = t1 @ (if contains_pythia \<and> \<not> set props \<subseteq> valid_pythia
                       then [UserWarning] else []);
            t3 = t2 @ [Lookup pdg_ids]
        in
        case loc (lookup self) pdg_ids of
          Inl e \<Rightarrow> (Inl e, t3, self)
        | Inr sel' \<Rightarrow>
        case getitem_list sel' props of
          Inl e \<Rightarrow> (Inl e, t3, self)
        | Inr uniq_df \<Rightarrow>
        case to_records uniq_df of
          Inl e \<Rightarrow> (Inl e, t3, self)
        | Inr uniq_rec \<Rightarrow>
        let uniq_data = drop_fields uniq_rec ''id'' in
        case getitem_idxs uniq_data pdg_inv_idxs of
          Inl e \<Rightarrow> (Inl e, t3, self)
        | Inr data \<Rightarrow> (Inr data, t3, self))"

text \<open>The three parts of what a call yields.\<close>

definition result :: "(error + recarray) \<times> event list \<times> PdgRecords \<Rightarrow> error + recarray" where
  "result c = fst c"

definition trace :: "(error + recarray) \<times> event list \<times> PdgRecords \<Rightarrow> event list" where
  "trace c = fst (snd c)"


text \<open>
  The table as the dictionary the specification speaks of: the record of a code is the
  row under that label.
\<close>

definition record_of :: "dataframe \<Rightarrow> int \<Rightarrow> cell list" where
  "record_of df c = the (map_of (zip (index df) (rows df)) c)"

text \<open>A small table for concrete runs: two curated particles and one from Pythia.\<close>

definition demo_table :: dataframe where
  "demo_table =
     \<lparr>index_name = ''id'',
      index = [22, 11, 9940003],
      columns = [''name'', ''charge'', ''quarks'', ''pythia''],
      rows =
        [[CStr ''gamma'', CVal (PyFloat 0), CStr [], CBool False],
         [CStr ''e-'', CVal (PyFloat (- 1)), CStr [], CBool False],
         [CStr ''J/psi[3S1(8)]'', CVal (PyFloat 0), CVal PyNaN, CBool True]]\<rparr>"

definition demo :: PdgRecords where
  "demo = \<lparr>lookup = demo_table\<rparr>"

section \<open>Reading a call\<close>

text \<open>The keys of the lookups in a trace, in the order in which they were made.\<close>

fun lookups :: "event list \<Rightarrow> int list list" where
  "lookups [] = []"
| "lookups (Lookup ks # t) = ks # lookups t"
| "lookups (UserWarning # t) = lookups t"

text \<open>The flag that line 109 reads: the \<^verbatim>\<open>pythia\<close> cell of the record of a code.\<close>

definition pythia_flag :: "dataframe \<Rightarrow> int \<Rightarrow> bool" where
  "pythia_flag df c = truthy (record_of df c ! index_of (columns df) ''pythia'')"

text \<open>
  What a call amounts to when every code is in the table, as \<open>properties_found\<close> shows
  below: the trace, and the exception or the record array.
\<close>

definition found_trace :: "dataframe \<Rightarrow> int list \<Rightarrow> string list \<Rightarrow> event list" where
  "found_trace df pdgs props =
     [Lookup (sort (remdups pdgs))] @
     (if (\<exists>c \<in> set pdgs. pythia_flag df c) \<and> \<not> set props \<subseteq> valid_pythia
      then [UserWarning] else []) @
     [Lookup (sort (remdups pdgs))]"

definition found_result :: "dataframe \<Rightarrow> int list \<Rightarrow> string list \<Rightarrow> error + recarray" where
  "found_result df pdgs props =
     (if \<not> set props \<subseteq> set (columns df) then
        Inl (KeyError (Columns (filter (\<lambda>p. p \<notin> set (columns df)) props)))
      else if \<not> distinct props then Inl ValueError
      else Inr \<lparr>names = props,
                 recs = map (\<lambda>c. project (columns df) (record_of df c) props) pdgs\<rparr>)"

section \<open>What \<^verbatim>\<open>frac\<close> returns\<close>

lemma frac_half_float: "frac ''1/2'' False = Inr (PyFloat (1 / 2))"
  by code_simp

lemma frac_empty_exact: "frac [] True = Inr (PyFraction (Fract 0 1))"
  by code_simp

lemma frac_empty_float: "frac [] False = Inr (PyFloat 0)"
  by code_simp

lemma frac_question_float: "frac ''?'' False = Inr PyNaN"
  by code_simp

lemma frac_question_exact: "frac ''?'' True = Inr PyNaN"
  by code_simp

text \<open>
  C7. \<^verbatim>\<open>frac("1/2")\<close> is the float 0.5; \<^verbatim>\<open>frac("")\<close> is zero, the fraction 0/1 in exact
  mode and the float 0.0 in float mode, and no error; \<^verbatim>\<open>frac("?")\<close> is the not-a-number
  marker in both modes.
\<close>

theorem frac_special_values:
  "frac ''1/2'' False = Inr (PyFloat (1 / 2)) \<and>
   frac [] True = Inr (PyFraction (Fract 0 1)) \<and>
   frac [] False = Inr (PyFloat 0) \<and>
   frac ''?'' False = Inr PyNaN \<and>
   frac ''?'' True = Inr PyNaN"
  using frac_half_float frac_empty_exact frac_empty_float frac_question_float
    frac_question_exact
  by simp

text \<open>
  Whatever \<^verbatim>\<open>Fraction\<close> rejects, other than the empty string and the question mark,
  comes back as \<^verbatim>\<open>None\<close>: the handler has no branch for it and raises nothing.
\<close>

lemma frac_rejected_is_None:
  "Fraction_str s = Inl ValueError \<Longrightarrow> s \<noteq> [] \<Longrightarrow> s \<noteq> ''?'' \<Longrightarrow>
   frac s obj_mode = Inr PyNone"
  by (simp add: frac_def cast_frac_def)

text \<open>
  C3. The claim is that an unparseable string other than the empty string and the
  question mark makes \<^verbatim>\<open>frac\<close> fail with a format error. The code at \<^verbatim>\<open>frac("abc")\<close>:
  the \<^verbatim>\<open>ValueError\<close> of \<^verbatim>\<open>Fraction\<close> is caught, neither branch of the handler
  applies, and the call returns \<^verbatim>\<open>None\<close>, in float mode and in exact mode.
\<close>

theorem frac_abc_returns_None:
  "frac ''abc'' False = Inr PyNone \<and> frac ''abc'' True = Inr PyNone"
  by code_simp

text \<open>
  C10. A string that the grammar matches with a denominator group whose value is zero
  makes \<^verbatim>\<open>frac\<close> raise \<^verbatim>\<open>ZeroDivisionError\<close> in both modes: the handler catches
  \<^verbatim>\<open>ValueError\<close> only, so the failure is neither the not-a-number marker, nor zero, nor
  a \<^verbatim>\<open>ValueError\<close>.
\<close>

theorem frac_zero_denominator:
  "rational_format s = Some m \<Longrightarrow> denom m = Some d \<Longrightarrow> int_of_digits d = 0 \<Longrightarrow>
   frac s obj_mode = Inl ZeroDivisionError"
  by (simp add: frac_def cast_frac_def Fraction_str_def Let_def split: prod.splits)

theorem frac_zero_denominator_witness:
  "rational_format ''1/0'' =
     Some \<lparr>sign = [], num = ''1'', denom = Some ''0'', decimal = None, exp = None\<rparr> \<and>
   int_of_digits ''0'' = 0 \<and>
   frac ''1/0'' False = Inl ZeroDivisionError \<and>
   frac ''1/0'' True = Inl ZeroDivisionError"
proof -
  have m: "rational_format ''1/0'' =
      Some \<lparr>sign = [], num = ''1'', denom = Some ''0'', decimal = None, exp = None\<rparr>"
    by code_simp
  have d: "denom \<lparr>sign = [], num = ''1'', denom = Some ''0'', decimal = None, exp = None\<rparr>
      = Some ''0''"
    by simp
  have z: "int_of_digits ''0'' = 0"
    by code_simp
  show ?thesis
    using m z frac_zero_denominator [OF m d z, of False]
      frac_zero_denominator [OF m d z, of True]
    by simp
qed

section \<open>The steps of a query\<close>

lemma index_of_less: "x \<in> set xs \<Longrightarrow> index_of xs x < length xs"
  by (induction xs) auto

lemma nth_index_of: "x \<in> set xs \<Longrightarrow> xs ! index_of xs x = x"
  by (induction xs) auto

text \<open>With distinct labels, the rows under a label are the one row of the dictionary.\<close>

lemma filter_zip_unique:
  "distinct ks \<Longrightarrow> length ks = length rs \<Longrightarrow> k \<in> set ks \<Longrightarrow>
   filter (\<lambda>(i, r). i = k) (zip ks rs) = [(k, the (map_of (zip ks rs) k))]"
proof (induction ks arbitrary: rs)
  case Nil
  then show ?case by simp
next
  case (Cons a ks)
  then obtain r rs' where rs: "rs = r # rs'"
    by (cases rs) auto
  show ?case
  proof (cases "a = k")
    case True
    with Cons.prems rs have "k \<notin> set ks"
      by simp
    then have "filter (\<lambda>(i, r). i = k) (zip ks rs') = []"
      by (auto simp: filter_empty_conv dest: set_zip_leftD)
    with True rs show ?thesis
      by simp
  next
    case False
    with Cons rs show ?thesis
      by simp
  qed
qed

lemma loc_missing:
  "\<not> set keys \<subseteq> set (index df) \<Longrightarrow>
   loc df keys = Inl (KeyError (Codes (filter (\<lambda>k. k \<notin> set (index df)) keys)))"
  by (auto simp: loc_def Let_def filter_empty_conv)

lemma loc_present:
  "set keys \<subseteq> set (index df) \<Longrightarrow> \<exists>sel. loc df keys = Inr sel \<and> columns sel = columns df"
  by (auto simp: loc_def Let_def filter_empty_conv)

lemma loc_found:
  assumes "set keys \<subseteq> set (index df)" "distinct (index df)"
    "length (rows df) = length (index df)"
  shows "loc df keys = Inr (df\<lparr>index := keys, rows := map (record_of df) keys\<rparr>)"
proof -
  have m: "filter (\<lambda>k. k \<notin> set (index df)) keys = []"
    using assms(1) by (auto simp: filter_empty_conv)
  have "concat (map (\<lambda>k. filter (\<lambda>(i, r). i = k) (zip (index df) (rows df))) keys)
        = map (\<lambda>k. (k, record_of df k)) keys"
    using assms(1)
  proof (induction keys)
    case Nil
    then show ?case by simp
  next
    case (Cons k keys)
    then show ?case
      using filter_zip_unique [of "index df" "rows df" k] assms(2,3)
      by (simp add: record_of_def)
  qed
  then show ?thesis
    by (simp add: loc_def Let_def m comp_def)
qed

lemma drop_absent_field:
  "n \<notin> set ps \<Longrightarrow> length r = length ps \<Longrightarrow>
   map snd (filter (\<lambda>(m, c). m \<noteq> n) (zip ps r)) = r"
proof (induction ps arbitrary: r)
  case Nil
  then show ?case by simp
next
  case (Cons p ps)
  then show ?case by (cases r) auto
qed

text \<open>
  A call on codes that are all in a well-formed table with distinct labels yields
  \<open>found_result\<close> and \<open>found_trace\<close>, and the object it was called on.
\<close>

lemma properties_found:
  assumes wf: "wf_table (lookup self)" and uq: "unique_index (lookup self)"
    and codes: "set pdgs \<subseteq> set (index (lookup self))"
  shows "properties self pdgs props =
    (found_result (lookup self) pdgs props, found_trace (lookup self) pdgs props, self)"
proof -
  define df where "df = lookup self"
  define ids where "ids = sort (remdups pdgs)"
  define sel where "sel = df\<lparr>index := ids, rows := map (record_of df) ids\<rparr>"
  have ids_set: "set ids = set pdgs"
    by (simp add: ids_def)
  have u: "np_unique pdgs = (ids, map (index_of ids) pdgs)"
    by (simp add: np_unique_def Let_def ids_def)
  have len: "length (rows df) = length (index df)" and idn: "index_name df = ''id''"
    and idc: "''id'' \<notin> set (columns df)" and py: "''pythia'' \<in> set (columns df)"
    using wf by (auto simp: wf_table_def df_def)
  have l: "loc df ids = Inr sel"
    unfolding sel_def using codes uq len
    by (intro loc_found) (simp_all add: ids_set df_def unique_index_def)
  have g: "getitem sel ''pythia'' =
      Inr (map (\<lambda>c. record_of df c ! index_of (columns df) ''pythia'') ids)"
    using py by (simp add: getitem_def sel_def comp_def)
  have a: "np_any (map (\<lambda>c. record_of df c ! index_of (columns df) ''pythia'') ids)
      = (\<exists>c \<in> set pdgs. pythia_flag df c)"
    by (simp add: np_any_def list_ex_iff pythia_flag_def ids_set)
  show ?thesis
  proof (cases "set props \<subseteq> set (columns df)")
    case False
    then have "filter (\<lambda>p. p \<notin> set (columns df)) props \<noteq> []"
      by (auto simp: filter_empty_conv)
    then have "getitem_list sel props =
        Inl (KeyError (Columns (filter (\<lambda>p. p \<notin> set (columns df)) props)))"
      by (simp add: getitem_list_def sel_def Let_def)
    with False u l g a show ?thesis
      by (simp add: properties_def found_result_def found_trace_def Let_def
          df_def [symmetric] ids_def [symmetric])
  next
    case True
    then have "filter (\<lambda>p. p \<notin> set (columns df)) props = []"
      by (auto simp: filter_empty_conv)
    then have gl: "getitem_list sel props =
        Inr (sel\<lparr>columns := props,
                 rows := map (\<lambda>c. project (columns df) (record_of df c) props) ids\<rparr>)"
      by (simp add: getitem_list_def sel_def Let_def comp_def)
    from True idc have idp: "''id'' \<notin> set props"
      by auto
    show ?thesis
    proof (cases "distinct props")
      case False
      then have "to_records (sel\<lparr>columns := props,
                 rows := map (\<lambda>c. project (columns df) (record_of df c) props) ids\<rparr>)
          = Inl ValueError"
        by (simp add: to_records_def sel_def Let_def)
      with False True u l g a gl show ?thesis
        by (simp add: properties_def found_result_def found_trace_def Let_def
            df_def [symmetric] ids_def [symmetric])
    next
      case dist: True
      have tr: "to_records (sel\<lparr>columns := props,
                 rows := map (\<lambda>c. project (columns df) (record_of df c) props) ids\<rparr>)
          = Inr \<lparr>names = ''id'' # props,
                 recs = map (\<lambda>c. CInt c # project (columns df) (record_of df c) props) ids\<rparr>"
        using dist idp idn
        by (simp add: to_records_def sel_def Let_def zip_map2 zip_same_conv_map comp_def)
      have dr: "drop_fields \<lparr>names = ''id'' # props,
                 recs = map (\<lambda>c. CInt c # project (columns df) (record_of df c) props) ids\<rparr>
                 ''id''
          = \<lparr>names = props,
             recs = map (\<lambda>c. project (columns df) (record_of df c) props) ids\<rparr>"
        using idp
        by (auto simp: drop_fields_def project_def filter_id_conv drop_absent_field)
      have gi: "getitem_idxs
            \<lparr>names = props,
             recs = map (\<lambda>c. project (columns df) (record_of df c) props) ids\<rparr>
            (map (index_of ids) pdgs)
          = Inr \<lparr>names = props,
                 recs = map (\<lambda>c. project (columns df) (record_of df c) props) pdgs\<rparr>"
        using ids_set
        by (auto simp: getitem_idxs_def list_all_iff index_of_less nth_index_of)
      from dist True u l g a gl tr dr gi show ?thesis
        by (simp add: properties_def found_result_def found_trace_def Let_def
            df_def [symmetric] ids_def [symmetric])
    qed
  qed
qed



text \<open>The demonstration table is one the constructor could have built.\<close>

lemma demo_wf: "wf_table (lookup demo)"
  by (simp add: demo_def demo_table_def wf_table_def)

lemma demo_unique: "unique_index (lookup demo)"
  by (simp add: demo_def demo_table_def unique_index_def)

section \<open>Rows, shape and order of the result\<close>





section \<open>Codes that are not in the table\<close>

text \<open>
  C4. When some code is not in the table, the call raises \<^verbatim>\<open>KeyError\<close> from the first
  lookup. The exception names exactly the codes that are absent; nothing is returned
  beside it, and the object is as it was.
\<close>

theorem properties_unknown_code:
  assumes "\<not> set pdgs \<subseteq> set (index (lookup self))"
  shows "\<exists>missing.
           properties self pdgs props =
             (Inl (KeyError (Codes missing)), [Lookup (fst (np_unique pdgs))], self) \<and>
           missing \<noteq> [] \<and> set missing = set pdgs - set (index (lookup self))"
proof -
  define ids where "ids = sort (remdups pdgs)"
  define missing where "missing = filter (\<lambda>k. k \<notin> set (index (lookup self))) ids"
  have u: "np_unique pdgs = (ids, map (index_of ids) pdgs)"
    by (simp add: np_unique_def Let_def ids_def)
  have s: "set ids = set pdgs"
    by (simp add: ids_def)
  with assms have "\<not> set ids \<subseteq> set (index (lookup self))"
    by simp
  then have l: "loc (lookup self) ids = Inl (KeyError (Codes missing))"
    unfolding missing_def by (rule loc_missing)
  have "properties self pdgs props = (Inl (KeyError (Codes missing)), [Lookup ids], self)"
    by (simp add: properties_def u l)
  moreover have "set missing = set pdgs - set (index (lookup self))"
    using s by (auto simp: missing_def)
  moreover from this assms have "missing \<noteq> []"
    by auto
  ultimately show ?thesis
    using u by auto
qed

theorem properties_unknown_code_witness:
  "\<not> set [11, 999999999, 11] \<subseteq> set (index (lookup demo)) \<and>
   properties demo [11, 999999999, 11] [''name''] =
     (Inl (KeyError (Codes [999999999])), [Lookup [11, 999999999]], demo)"
proof -
  have a: "\<not> set [11, 999999999, 11] \<subseteq> set (index (lookup demo))"
    by (simp add: demo_def demo_table_def)
  from properties_unknown_code [OF a, of "[''name'']"] obtain missing where
    p: "properties demo [11, 999999999, 11] [''name''] =
         (Inl (KeyError (Codes missing)), [Lookup (fst (np_unique [11, 999999999, 11]))], demo)"
    by blast
  have "properties demo [11, 999999999, 11] [''name''] =
      (Inl (KeyError (Codes [999999999])), [Lookup [11, 999999999]], demo)"
    by code_simp
  with a p show ?thesis
    by simp
qed

section \<open>The warning\<close>



section \<open>Repeated column names\<close>

text \<open>
  C6, as the claim has it, fails: the query of the electron for the name twice raises
  \<^verbatim>\<open>ValueError\<close>, on a well-formed table that has the code and the column.
\<close>

theorem properties_duplicate_props_counterexample:
  "wf_table (lookup demo) \<and> unique_index (lookup demo) \<and>
   set [11] \<subseteq> set (index (lookup demo)) \<and>
   set [''name'', ''name''] \<subseteq> set (columns (lookup demo)) \<and>
   result (properties demo [11] [''name'', ''name'']) = Inl ValueError"
proof -
  have "result (properties demo [11] [''name'', ''name'']) = Inl ValueError"
    by code_simp
  moreover have "set [11] \<subseteq> set (index (lookup demo)) \<and>
      set [''name'', ''name''] \<subseteq> set (columns (lookup demo))"
    by (simp add: demo_def demo_table_def)
  ultimately show ?thesis
    using demo_wf demo_unique by blast
qed

text \<open>
  C6, amended. On a well-formed table with distinct labels, for codes that are all in
  it and column names \<open>props\<close>: when the names are distinct the call returns a record
  array whose fields are \<open>props\<close>, in this order, each record having the cells of these
  columns in this order; when a name is repeated the call raises \<^verbatim>\<open>ValueError\<close>.
\<close>

theorem properties_columns:
  assumes "wf_table (lookup self)" and "unique_index (lookup self)"
    and "set pdgs \<subseteq> set (index (lookup self))"
    and "set props \<subseteq> set (columns (lookup self))"
  shows "(distinct props \<longrightarrow>
            (\<exists>data. result (properties self pdgs props) = Inr data \<and> names data = props \<and>
               recs data =
                 map (\<lambda>c. map (\<lambda>p. record_of (lookup self) c ! index_of (columns (lookup self)) p)
                            props) pdgs)) \<and>
         (\<not> distinct props \<longrightarrow> result (properties self pdgs props) = Inl ValueError)"
  using properties_found [OF assms(1,2,3), of props] assms(4)
  by (simp add: result_def found_result_def project_def)

theorem properties_columns_witness:
  "wf_table (lookup demo) \<and> unique_index (lookup demo) \<and>
   set [11, 22] \<subseteq> set (index (lookup demo)) \<and>
   set [''quarks'', ''charge'', ''name''] \<subseteq> set (columns (lookup demo)) \<and>
   distinct [''quarks'', ''charge'', ''name''] \<and>
   \<not> distinct [''name'', ''charge'', ''name''] \<and>
   set [''name'', ''charge'', ''name''] \<subseteq> set (columns (lookup demo)) \<and>
   (\<exists>data. result (properties demo [11, 22] [''quarks'', ''charge'', ''name'']) = Inr data \<and>
      names data = [''quarks'', ''charge'', ''name'']) \<and>
   result (properties demo [11, 22] [''name'', ''charge'', ''name'']) = Inl ValueError"
proof -
  have c: "set [11, 22] \<subseteq> set (index (lookup demo))"
    by (simp add: demo_def demo_table_def)
  have p1: "set [''quarks'', ''charge'', ''name''] \<subseteq> set (columns (lookup demo))"
    by (simp add: demo_def demo_table_def)
  have p2: "set [''name'', ''charge'', ''name''] \<subseteq> set (columns (lookup demo))"
    by (simp add: demo_def demo_table_def)
  have d1: "distinct [''quarks'', ''charge'', ''name'']"
    by simp
  have d2: "\<not> distinct [''name'', ''charge'', ''name'']"
    by simp
  from properties_columns [OF demo_wf demo_unique c p1] d1
  have a: "\<exists>data. result (properties demo [11, 22] [''quarks'', ''charge'', ''name'']) = Inr data \<and>
      names data = [''quarks'', ''charge'', ''name'']"
    by blast
  from properties_columns [OF demo_wf demo_unique c p2] d2
  have b: "result (properties demo [11, 22] [''name'', ''charge'', ''name'']) = Inl ValueError"
    by blast
  from demo_wf demo_unique c p1 p2 d1 d2 a b show ?thesis
    by blast
qed

section \<open>The table after a query\<close>


section \<open>The number of lookups\<close>

text \<open>
  C9, as the claim has it, fails: a query of three photons looks the one distinct code
  up in the table twice, not once.
\<close>

theorem properties_one_lookup_counterexample:
  "lookups (trace (properties demo [22, 22, 22] [''name''])) = [[22], [22]] \<and>
   length (lookups (trace (properties demo [22, 22, 22] [''name'']))) \<noteq> 1"
proof -
  have "lookups (trace (properties demo [22, 22, 22] [''name''])) = [[22], [22]]"
    by code_simp
  then show ?thesis
    by simp
qed

text \<open>
  C9, amended. On a table with the column \<^verbatim>\<open>pythia\<close>, a call makes two lookups when
  every code is in the table, the one of line 109 for the flags and the one of line 122
  for the data, and one lookup when a code is absent, the one that raises. Each lookup
  is of the distinct codes of the input, whatever its length.
\<close>

theorem properties_lookup_passes:
  assumes "''pythia'' \<in> set (columns (lookup self))"
  shows "lookups (trace (properties self pdgs props)) =
           (if set pdgs \<subseteq> set (index (lookup self))
            then [fst (np_unique pdgs), fst (np_unique pdgs)]
            else [fst (np_unique pdgs)]) \<and>
         distinct (fst (np_unique pdgs)) \<and> set (fst (np_unique pdgs)) = set pdgs"
proof -
  define ids where "ids = sort (remdups pdgs)"
  have u: "np_unique pdgs = (ids, map (index_of ids) pdgs)"
    by (simp add: np_unique_def Let_def ids_def)
  have s: "set ids = set pdgs" "distinct ids"
    by (simp_all add: ids_def)
  have "lookups (trace (properties self pdgs props)) =
      (if set pdgs \<subseteq> set (index (lookup self)) then [ids, ids] else [ids])"
  proof (cases "set pdgs \<subseteq> set (index (lookup self))")
    case False
    with s have "\<not> set ids \<subseteq> set (index (lookup self))"
      by simp
    from loc_missing [OF this] False u show ?thesis
      by (simp add: properties_def trace_def)
  next
    case True
    with s have "set ids \<subseteq> set (index (lookup self))"
      by simp
    from loc_present [OF this] obtain sel where
      l: "loc (lookup self) ids = Inr sel" and cs: "columns sel = columns (lookup self)"
      by blast
    from cs assms have "\<exists>flags. getitem sel ''pythia'' = Inr flags"
      by (simp add: getitem_def)
    then obtain flags where g: "getitem sel ''pythia'' = Inr flags"
      by blast
    from True u l g show ?thesis
      by (simp add: properties_def trace_def Let_def split: sum.splits)
  qed
  with u s show ?thesis
    by simp
qed

theorem properties_lookup_passes_witness:
  "''pythia'' \<in> set (columns (lookup demo)) \<and>
   set [22, 11, 22, 22] \<subseteq> set (index (lookup demo)) \<and>
   \<not> set [22, 5] \<subseteq> set (index (lookup demo)) \<and>
   lookups (trace (properties demo [22, 11, 22, 22] [''name''])) = [[11, 22], [11, 22]] \<and>
   lookups (trace (properties demo [22, 5] [''name''])) = [[5, 22]]"
proof -
  have p: "''pythia'' \<in> set (columns (lookup demo))"
    by (simp add: demo_def demo_table_def)
  have c: "set [22, 11, 22, 22] \<subseteq> set (index (lookup demo))"
    by (simp add: demo_def demo_table_def)
  have n: "\<not> set [22, 5] \<subseteq> set (index (lookup demo))"
    by (simp add: demo_def demo_table_def)
  have u1: "fst (np_unique [22, 11, 22, 22]) = [11, 22]"
    by code_simp
  have u2: "fst (np_unique [22, 5]) = [5, 22]"
    by code_simp
  from properties_lookup_passes [OF p, of "[22, 11, 22, 22]" "[''name'']"] c u1
  have a: "lookups (trace (properties demo [22, 11, 22, 22] [''name''])) = [[11, 22], [11, 22]]"
    by simp
  from properties_lookup_passes [OF p, of "[22, 5]" "[''name'']"] n u2
  have b: "lookups (trace (properties demo [22, 5] [''name''])) = [[5, 22]]"
    by simp
  from p c n a b show ?thesis
    by blast
qed

end
